theory Spec2Isabelle
  imports Main "HOL-Library.Sublist"
begin

chapter \<open>The data-file editor of \<^verbatim>\<open>src/app/page.tsx\<close>\<close>

text \<open>
  The component \<^verbatim>\<open>FileContentEditor\<close> loads a module that exports an array literal,
  lets the user edit the array and writes it back as source text. This theory embeds its
  parser (\<^verbatim>\<open>parseDataFile\<close>), its mutation helpers (\<^verbatim>\<open>updateNestedValue\<close>,
  \<^verbatim>\<open>addItem\<close>, \<^verbatim>\<open>deleteItem\<close>) and its printer (\<^verbatim>\<open>stringify\<close>).

  Conventions of the embedding.
  \<^item> A JavaScript string is a list of code units. The type \<^typ>\<open>char\<close> has 256 values, so
    the model covers the code units \<open>0x00\<close> to \<open>0xFF\<close>.
  \<^item> React state is a record; every \<^verbatim>\<open>setX\<close> call is a record update and every handler
    is a function from the state to the next state.
  \<^item> The three things the component takes from outside its own source (Babel's
    \<^verbatim>\<open>parse\<close>, \<^verbatim>\<open>JSON5.parse\<close> and the \<^verbatim>\<open>Function\<close> constructor of the host) are
    parameters, collected in the record \<open>libs\<close>. An exception thrown by one of them is the
    value \<open>Inl message\<close>.
  \<^item> Numbers are kept abstract (the type parameter \<open>'n\<close>), with \<^verbatim>\<open>String(n)\<close> a parameter
    of the printer.
  \<^item> A document is a value without identity. Where the identity of objects matters,
    in the clone of \<^verbatim>\<open>updateNestedValue\<close>, the objects are the cells of a store.
\<close>

section \<open>Values\<close>

text \<open>
  What \<^verbatim>\<open>JSON5.parse\<close> and the evaluated array literal hand to the component: the
  primitives, arrays and plain objects. An object is the list of its own enumerable
  properties in enumeration order, the order of \<^verbatim>\<open>Object.keys\<close> and
  \<^verbatim>\<open>Object.entries\<close>. Arrays are dense; inherited properties and the built-in
  \<^verbatim>\<open>length\<close> are not part of a value.
\<close>

datatype 'n jsval =
    JUndefined
  | JNull
  | JBool bool
  | JNum 'n
  | JStr string
  | JArr "'n jsval list"
  | JObj "(string \<times> 'n jsval) list"

definition dquote :: char where
  "dquote = CHR 0x22"

text \<open>\<^verbatim>\<open>Array.prototype.join\<close> on an array of strings.\<close>

fun array_join :: "string \<Rightarrow> string list \<Rightarrow> string" where
  "array_join sep [] = []"
| "array_join sep [x] = x"
| "array_join sep (x # y # ys) = x @ sep @ array_join sep (y # ys)"

text \<open>\<^verbatim>\<open>"  ".repeat(n)\<close>.\<close>

definition repeat :: "string \<Rightarrow> nat \<Rightarrow> string" where
  "repeat s n = concat (replicate n s)"

section \<open>The printer\<close>

text \<open>
  \<^verbatim>\<open>stringify(obj, indent)\<close>. The flag \<open>quotedKeys\<close> is the component state the closure
  reads. The array branch tests \<^verbatim>\<open>obj.length\<close>; the object branch has no such test. The
  last line of the source, \<^verbatim>\<open>typeof obj === "string" ? `"${obj}"` : String(obj)\<close>, is the
  five equations for the primitives: a string goes between two double quotes as it is.
\<close>

fun stringify :: "('n \<Rightarrow> string) \<Rightarrow> bool \<Rightarrow> 'n jsval \<Rightarrow> nat \<Rightarrow> string" where
  "stringify num quotedKeys (JArr xs) indent =
     (if xs \<noteq> []
      then ''[\<newline>'' @
           array_join '',\<newline>''
             (map (\<lambda>v. repeat ''  '' (indent + 1) @ stringify num quotedKeys v (indent + 1)) xs) @
           ''\<newline>'' @ repeat ''  '' indent @ '']''
      else ''[]'')"
| "stringify num quotedKeys (JObj kvs) indent =
     ''{\<newline>'' @
     array_join '',\<newline>''
       (map (\<lambda>(k, v). repeat ''  '' (indent + 1) @
                       (if quotedKeys then [dquote] @ k @ [dquote] else k) @ '': '' @
                       stringify num quotedKeys v (indent + 1)) kvs) @
     ''\<newline>'' @ repeat ''  '' indent @ ''}''"
| "stringify num quotedKeys (JStr s) indent = [dquote] @ s @ [dquote]"
| "stringify num quotedKeys (JNum n) indent = num n"
| "stringify num quotedKeys (JBool b) indent = (if b then ''true'' else ''false'')"
| "stringify num quotedKeys JNull indent = ''null''"
| "stringify num quotedKeys JUndefined indent = ''undefined''"

subsection \<open>Sample documents\<close>

text \<open>
  The value of \<^verbatim>\<open>[{a: 'x",\n    b: "y'}]\<close> (one key, whose string holds a double quote,
  a comma, a line feed, four spaces and \<^verbatim>\<open>b: "y\<close>), and the value of
  \<^verbatim>\<open>[{a: "x", b: "y"}]\<close>.
\<close>

definition doc_injected :: "'n jsval" where
  "doc_injected =
     JArr [JObj [(''a'', JStr (''x'' @ [dquote] @ '',\<newline>    b: '' @ [dquote] @ ''y''))]]"

definition doc_two_keys :: "'n jsval" where
  "doc_two_keys = JArr [JObj [(''a'', JStr ''x''), (''b'', JStr ''y'')]]"

section \<open>Property access\<close>

text \<open>
  A property key is a string. A key is an array index when it is the decimal numeral,
  without sign or leading zero, of a number below \<open>2^32 - 1\<close>: the string that prints
  back as itself.
\<close>

definition is_digit :: "char \<Rightarrow> bool" where
  "is_digit c = (48 \<le> (of_char c :: nat) \<and> (of_char c :: nat) \<le> 57)"

fun index_string :: "nat \<Rightarrow> string" where
  "index_string n =
     (if n < 10 then [char_of (48 + n)]
      else index_string (n div 10) @ [char_of (48 + n mod 10)])"

declare index_string.simps [simp del]

definition parse_digits :: "string \<Rightarrow> nat" where
  "parse_digits k = foldl (\<lambda>a c. 10 * a + ((of_char c :: nat) - 48)) 0 k"

definition array_index :: "string \<Rightarrow> nat option" where
  "array_index k =
     (if k \<noteq> [] \<and> list_all is_digit k \<and> index_string (parse_digits k) = k
         \<and> parse_digits k < 4294967295
      then Some (parse_digits k) else None)"

text \<open>
  Storing a property in an object. An existing key keeps its place. A new key that is an
  array index goes among the index keys in ascending order, which an object enumerates
  first; any other new key goes last.
\<close>

fun obj_insert_index :: "nat \<Rightarrow> string \<Rightarrow> 'a \<Rightarrow> (string \<times> 'a) list \<Rightarrow> (string \<times> 'a) list" where
  "obj_insert_index i k v [] = [(k, v)]"
| "obj_insert_index i k v ((k', v') # kvs) =
     (case array_index k' of
        Some j \<Rightarrow> if j < i then (k', v') # obj_insert_index i k v kvs
                  else (k, v) # (k', v') # kvs
      | None \<Rightarrow> (k, v) # (k', v') # kvs)"

definition obj_set :: "(string \<times> 'a) list \<Rightarrow> string \<Rightarrow> 'a \<Rightarrow> (string \<times> 'a) list" where
  "obj_set kvs k v =
     (if k \<in> set (map fst kvs)
      then map (\<lambda>(k', v'). if k' = k then (k', v) else (k', v')) kvs
      else case array_index k of
             Some i \<Rightarrow> obj_insert_index i k v kvs
           | None \<Rightarrow> kvs @ [(k, v)])"

text \<open>
  What a mutation helper can raise. \<open>TypeError\<close> is the exception of the language: a
  property read or write on \<^verbatim>\<open>undefined\<close> or \<^verbatim>\<open>null\<close>, or a property write on a string,
  number or boolean (the file is a module, hence strict code). \<open>OutsideModel\<close> is no
  exception: it marks an access that the language answers and this model does not. These
  are the accesses that a prototype or the built-in \<^verbatim>\<open>length\<close> answers (a key that is not
  an array index, on an array or a primitive; a name of \<^verbatim>\<open>Object.prototype\<close> that an
  object does not have as its own key; the write of \<^verbatim>\<open>__proto__\<close>, which goes to the
  setter of \<^verbatim>\<open>Object.prototype\<close> and stores no property) and the write that leaves holes in
  an array (an index beyond its length).
\<close>

datatype mutation_error = TypeError | OutsideModel

text \<open>The property names of \<^verbatim>\<open>Object.prototype\<close>, which every plain object inherits.\<close>

definition Object_prototype_names :: "string list" where
  "Object_prototype_names =
     [''constructor'', ''__defineGetter__'', ''__defineSetter__'', ''hasOwnProperty'',
      ''__lookupGetter__'', ''__lookupSetter__'', ''isPrototypeOf'', ''propertyIsEnumerable'',
      ''toString'', ''valueOf'', ''__proto__'', ''toLocaleString'']"

text \<open>
  The read \<^verbatim>\<open>ref[k]\<close> on the properties of an object and on the elements of an array,
  with \<open>undef\<close> the value \<^verbatim>\<open>undefined\<close>. An object answers with its own property; without
  one the prototype is asked, which has nothing under a name that is not its own. An array
  answers an index: with the element, or beyond the end with \<^verbatim>\<open>undefined\<close>.
\<close>

definition object_get :: "'a \<Rightarrow> (string \<times> 'a) list \<Rightarrow> string \<Rightarrow> mutation_error + 'a" where
  "object_get undef kvs k =
     (case map_of kvs k of
        Some v \<Rightarrow> Inr v
      | None \<Rightarrow> if k \<in> set Object_prototype_names then Inl OutsideModel else Inr undef)"

definition array_get :: "'a \<Rightarrow> 'a list \<Rightarrow> string \<Rightarrow> mutation_error + 'a" where
  "array_get undef xs k =
     (case array_index k of
        Some i \<Rightarrow> Inr (if i < length xs then xs ! i else undef)
      | None \<Rightarrow> Inl OutsideModel)"




text \<open>
  The read \<^verbatim>\<open>ref[k]\<close> on a value. A string has its code units as elements; a number or a
  boolean has none.
\<close>

fun get_prop :: "'n jsval \<Rightarrow> string \<Rightarrow> mutation_error + 'n jsval" where
  "get_prop JUndefined k = Inl TypeError"
| "get_prop JNull k = Inl TypeError"
| "get_prop (JObj kvs) k = object_get JUndefined kvs k"
| "get_prop (JArr xs) k = array_get JUndefined xs k"
| "get_prop (JStr s) k = array_get JUndefined (map (\<lambda>c. JStr [c]) s) k"
| "get_prop (JNum n) k = array_get JUndefined [] k"
| "get_prop (JBool b) k = array_get JUndefined [] k"


text \<open>\<^verbatim>\<open>Object.keys\<close>, \<^verbatim>\<open>a ?? b\<close> and \<^verbatim>\<open>Object.fromEntries\<close>.\<close>

fun Object_keys :: "'n jsval \<Rightarrow> mutation_error + string list" where
  "Object_keys JUndefined = Inl TypeError"
| "Object_keys JNull = Inl TypeError"
| "Object_keys (JObj kvs) = Inr (map fst kvs)"
| "Object_keys (JArr xs) = Inr (map index_string [0..<length xs])"
| "Object_keys (JStr s) = Inr (map index_string [0..<length s])"
| "Object_keys (JNum n) = Inr []"
| "Object_keys (JBool b) = Inr []"

fun nullish_coalesce :: "'n jsval \<Rightarrow> 'n jsval \<Rightarrow> 'n jsval" where
  "nullish_coalesce JUndefined b = b"
| "nullish_coalesce JNull b = b"
| "nullish_coalesce a b = a"

definition Object_fromEntries :: "(string \<times> 'n jsval) list \<Rightarrow> 'n jsval" where
  "Object_fromEntries entries = JObj (foldl (\<lambda>kvs (k, v). obj_set kvs k v) [] entries)"

text \<open>\<^verbatim>\<open>xs[i]\<close> with a numeric index, and \<^verbatim>\<open>xs.filter((_, i) => p(i))\<close>.\<close>

definition item_at :: "'n jsval list \<Rightarrow> nat \<Rightarrow> 'n jsval" where
  "item_at xs i = (if i < length xs then xs ! i else JUndefined)"

definition filter_by_index :: "(nat \<Rightarrow> bool) \<Rightarrow> 'a list \<Rightarrow> 'a list" where
  "filter_by_index p xs = map snd (filter (\<lambda>(i, x). p i) (enumerate 0 xs))"

section \<open>Component state\<close>

text \<open>
  The \<^verbatim>\<open>useState\<close> cells of the component. \<open>timers\<close> is the part of the browser's timer
  queue that \<^verbatim>\<open>deleteItem\<close> fills: every entry has the same delay of 300 ms, so the
  callbacks run in the order in which they were scheduled.
\<close>

record 'n editor =
  originalFileName :: string
  exportName :: string
  data :: "'n jsval list"
  isLoaded :: bool
  error :: string
  originalImports :: string
  quotedKeys :: bool
  newItemIndex :: "nat option"
  deletingItems :: "nat set"
  timers :: "nat list"

definition initial :: "'n editor" where
  "initial = \<lparr>originalFileName = '''', exportName = ''data'', data = [], isLoaded = False,
     error = '''', originalImports = '''', quotedKeys = False, newItemIndex = None,
     deletingItems = {}, timers = []\<rparr>"

section \<open>The two regular expressions\<close>

text \<open>
  The character classes of the regular expressions, on the code units of the model:
  \<^verbatim>\<open>\s\<close> (tab, line feed, vertical tab, form feed, carriage return, space, no-break
  space), the line terminators, which \<^verbatim>\<open>.\<close> does not match and at which \<^verbatim>\<open>^\<close> and
  \<^verbatim>\<open>$\<close> match under the flag \<^verbatim>\<open>m\<close>, and \<^verbatim>\<open>\w\<close> (letters, digits, underscore).
\<close>

definition is_space :: "char \<Rightarrow> bool" where
  "is_space c = (c \<in> {CHR 0x09, CHR 0x0A, CHR 0x0B, CHR 0x0C, CHR 0x0D, CHR 0x20, CHR 0xA0})"

definition is_line_terminator :: "char \<Rightarrow> bool" where
  "is_line_terminator c = (c = CHR 0x0A \<or> c = CHR 0x0D)"

definition is_word_char :: "char \<Rightarrow> bool" where
  "is_word_char c =
     (let n = (of_char c :: nat)
      in (48 \<le> n \<and> n \<le> 57) \<or> (65 \<le> n \<and> n \<le> 90) \<or> n = 95 \<or> (97 \<le> n \<and> n \<le> 122))"

text \<open>
  \<^verbatim>\<open>source.match(/^import\s+.*$/gm) || []\<close>. At the start of a line the expression
  matches \<^verbatim>\<open>import\<close>, then the longest run of white space, which must not be empty and
  may run over line breaks, then everything up to the next line terminator. Each
  quantifier is greedy and is followed by something it cannot match itself, so the first
  attempt of the matcher is the match. \<open>match_imports_from skip bol text\<close> walks the text:
  \<open>skip\<close> counts the code units that still belong to the last match, \<open>bol\<close> says
  whether the previous code unit was a line terminator (or there is none).
\<close>

definition import_match :: "string \<Rightarrow> string option" where
  "import_match t =
     (if take 6 t = ''import'' \<and> takeWhile is_space (drop 6 t) \<noteq> []
      then Some (''import'' @ takeWhile is_space (drop 6 t) @
                 takeWhile (\<lambda>c. \<not> is_line_terminator c) (dropWhile is_space (drop 6 t)))
      else None)"

fun match_imports_from :: "nat \<Rightarrow> bool \<Rightarrow> string \<Rightarrow> string list" where
  "match_imports_from skip bol [] = []"
| "match_imports_from (Suc skip) bol (c # cs) = match_imports_from skip (is_line_terminator c) cs"
| "match_imports_from 0 bol (c # cs) =
     (case (if bol then import_match (c # cs) else None) of
        Some m \<Rightarrow> m # match_imports_from (length m - 1) (is_line_terminator c) cs
      | None \<Rightarrow> match_imports_from 0 (is_line_terminator c) cs)"

definition match_imports :: "string \<Rightarrow> string list" where
  "match_imports source = match_imports_from 0 True source"

text \<open>
  \<^verbatim>\<open>/"\w+"\s*:/.test(arraySlice)\<close>: somewhere in the text a double quote, one or more word
  characters, a double quote, any white space, a colon.
\<close>

definition quoted_key_at :: "string \<Rightarrow> bool" where
  "quoted_key_at t =
     (case t of
        [] \<Rightarrow> False
      | c # r \<Rightarrow>
          c = dquote \<and> takeWhile is_word_char r \<noteq> [] \<and>
          (case dropWhile is_word_char r of
             [] \<Rightarrow> False
           | c1 # r1 \<Rightarrow>
               c1 = dquote \<and>
               (case dropWhile is_space r1 of [] \<Rightarrow> False | c2 # r2 \<Rightarrow> c2 = CHR '':'')))"

fun quotedKeys_test :: "string \<Rightarrow> bool" where
  "quotedKeys_test [] = False"
| "quotedKeys_test (c # cs) = (quoted_key_at (c # cs) \<or> quotedKeys_test cs)"

section \<open>The syntax tree and the scan\<close>

text \<open>
  The part of Babel's tree that \<^verbatim>\<open>parseDataFile\<close> inspects: the node types it tests
  by name, the fields it follows (\<^verbatim>\<open>declaration\<close>, \<^verbatim>\<open>declarations\<close>, \<^verbatim>\<open>init\<close>, \<^verbatim>\<open>id\<close>,
  \<^verbatim>\<open>name\<close>) and the positions \<^verbatim>\<open>start\<close> and \<^verbatim>\<open>end\<close> of an array expression. Every
  other node is \<open>OtherNode\<close> with the name of its type and its child nodes.
\<close>

datatype node =
    ExportDefaultDeclaration node
  | ExportNamedDeclaration "node option"
  | VariableDeclaration "declarator list"
  | ArrayExpression nat nat
  | Identifier string
  | OtherNode string "node list"
and declarator =
    VariableDeclarator node "node option"

text \<open>\<^verbatim>\<open>source.slice(start, end)\<close> for positions that are natural numbers.\<close>

definition slice :: "string \<Rightarrow> nat \<Rightarrow> nat \<Rightarrow> string" where
  "slice source start stop = take (stop - start) (drop start source)"

text \<open>
  The two loops of the scan. The pair is \<^verbatim>\<open>(arraySlice, foundExportName)\<close>. The inner
  loop runs over the declarators of an exported variable declaration and stops at the first
  one whose \<^verbatim>\<open>init\<close> is an array expression and whose \<^verbatim>\<open>id\<close> is an identifier. The outer
  loop runs over \<^verbatim>\<open>ast.program.body\<close>; it stops at a default export of an array
  expression, and after any statement once \<^verbatim>\<open>arraySlice\<close> is not empty.
\<close>

fun scan_declarations :: "string \<Rightarrow> declarator list \<Rightarrow> string \<times> string \<Rightarrow> string \<times> string" where
  "scan_declarations source [] found = found"
| "scan_declarations source
     (VariableDeclarator (Identifier name) (Some (ArrayExpression start stop)) # decls) found =
     (slice source start stop, name)"
| "scan_declarations source (decl # decls) found = scan_declarations source decls found"

fun scan_statements :: "string \<Rightarrow> node list \<Rightarrow> string \<times> string \<Rightarrow> string \<times> string" where
  "scan_statements source [] found = found"
| "scan_statements source (ExportDefaultDeclaration (ArrayExpression start stop) # rest) found =
     (slice source start stop, ''defaultExport'')"
| "scan_statements source (ExportNamedDeclaration (Some (VariableDeclaration decls)) # rest) found =
     (let found' = scan_declarations source decls found
      in if fst found' \<noteq> [] then found' else scan_statements source rest found')"
| "scan_statements source (stmt # rest) found =
     (if fst found \<noteq> [] then found else scan_statements source rest found)"

section \<open>Loading a module\<close>

text \<open>
  The libraries. \<open>babel_parse\<close> is \<^verbatim>\<open>parse(source, {sourceType: "module", plugins:
  ["typescript"], errorRecovery: true})\<close> followed by \<^verbatim>\<open>.program.body\<close>; \<open>JSON5_parse\<close> is
  \<^verbatim>\<open>JSON5.parse\<close>; \<open>new_Function\<close> builds a function from the text of its body with the
  \<^verbatim>\<open>Function\<close> constructor and calls it. \<open>Inl\<close> carries the message of the exception.
\<close>

record 'n libs =
  babel_parse :: "string \<Rightarrow> string + node list"
  JSON5_parse :: "string \<Rightarrow> string + 'n jsval"
  new_Function :: "string \<Rightarrow> string + 'n jsval"

text \<open>\<^verbatim>\<open>safeEval\<close>: the code goes into the body \<^verbatim>\<open>"use strict"; return (code);\<close> as it is.\<close>

definition safeEval :: "'n libs \<Rightarrow> string \<Rightarrow> string + 'n jsval" where
  "safeEval L code =
     new_Function L ([dquote] @ ''use strict'' @ [dquote] @ ''; return ('' @ code @ '');'')"

text \<open>
  What is thrown inside \<^verbatim>\<open>parseDataFile\<close>: the two errors it raises itself and the
  exceptions of the libraries, of which only the message is used.
\<close>

datatype failure = NoExportedArray | NotAnArray | Thrown string

fun message :: "failure \<Rightarrow> string" where
  "message NoExportedArray = ''No exported array found.''"
| "message NotAnArray = ''Export is not an array''"
| "message (Thrown m) = m"

text \<open>
  The two decoders, each up to its \<^verbatim>\<open>Array.isArray\<close> test. \<open>tier1\<close> is the inner
  \<^verbatim>\<open>try\<close> block: \<^verbatim>\<open>JSON5.parse\<close> of the slice between parentheses. \<open>tier2\<close> is the code
  behind it: \<^verbatim>\<open>safeEval\<close> of the slice.
\<close>

definition tier1 :: "'n libs \<Rightarrow> string \<Rightarrow> failure + 'n jsval list" where
  "tier1 L arraySlice =
     (case JSON5_parse L (''('' @ arraySlice @ '')'') of
        Inl m \<Rightarrow> Inl (Thrown m)
      | Inr (JArr parsed) \<Rightarrow> Inr parsed
      | Inr other \<Rightarrow> Inl NotAnArray)"

definition tier2 :: "'n libs \<Rightarrow> string \<Rightarrow> failure + 'n jsval list" where
  "tier2 L arraySlice =
     (case safeEval L arraySlice of
        Inl m \<Rightarrow> Inl (Thrown m)
      | Inr (JArr evaluated) \<Rightarrow> Inr evaluated
      | Inr other \<Rightarrow> Inl NotAnArray)"

text \<open>
  The body of the outer \<^verbatim>\<open>try\<close> of \<^verbatim>\<open>parseDataFile\<close>: the state as the \<^verbatim>\<open>setX\<close> calls
  made so far leave it, and the error thrown, if any. The \<^verbatim>\<open>catch (e)\<close> of the inner
  \<^verbatim>\<open>try\<close> is empty, so any failure of \<open>tier1\<close> leads to \<open>tier2\<close>. The callback is memoised
  with no dependencies, so the \<^verbatim>\<open>exportName\<close> it reads for the initial value of
  \<^verbatim>\<open>foundExportName\<close> is the one of the first render, \<^verbatim>\<open>"data"\<close>.
\<close>

definition parseDataFile_try :: "'n libs \<Rightarrow> string \<Rightarrow> 'n editor \<Rightarrow> failure option \<times> 'n editor" where
  "parseDataFile_try L source s =
     (let importLines = match_imports source;
          s1 = s\<lparr>originalImports := array_join ''\<newline>'' importLines\<rparr>
      in case babel_parse L source of
           Inl m \<Rightarrow> (Some (Thrown m), s1)
         | Inr body \<Rightarrow>
             (let (arraySlice, foundExportName) = scan_statements source body ('''', ''data'')
              in if arraySlice = [] then (Some NoExportedArray, s1)
                 else
                   (let s2 = s1\<lparr>exportName := foundExportName\<rparr>
                    in case tier1 L arraySlice of
                         Inr parsed \<Rightarrow>
                           (None, s2\<lparr>data := parsed,
                                     quotedKeys := quotedKeys_test arraySlice,
                                     error := ''''\<rparr>)
                       | Inl e \<Rightarrow>
                           (case tier2 L arraySlice of
                              Inr evaluated \<Rightarrow>
                                (None, s2\<lparr>data := evaluated,
                                          quotedKeys := quotedKeys_test arraySlice,
                                          error := ''''\<rparr>)
                            | Inl err \<Rightarrow> (Some err, s2)))))"

text \<open>\<^verbatim>\<open>parseDataFile\<close> with its \<^verbatim>\<open>catch (err)\<close>.\<close>

definition parseDataFile :: "'n libs \<Rightarrow> string \<Rightarrow> 'n editor \<Rightarrow> bool \<times> 'n editor" where
  "parseDataFile L source s =
     (case parseDataFile_try L source s of
        (None, s') \<Rightarrow> (True, s')
      | (Some err, s') \<Rightarrow> (False, s'\<lparr>error := ''Failed to parse file: '' @ message err\<rparr>))"

section \<open>The words of the specification\<close>

text \<open>
  A qualifying export: a default export of an array literal, or a named export of a
  variable declaration with a declarator that binds an identifier to an array literal.
  \<open>export_binding\<close> is what such a statement binds: the text of the literal and the name,
  for a declaration its first such declarator.
\<close>

fun array_declarator :: "declarator \<Rightarrow> bool" where
  "array_declarator (VariableDeclarator (Identifier name) (Some (ArrayExpression start stop))) = True"
| "array_declarator decl = False"

fun qualifying :: "node \<Rightarrow> bool" where
  "qualifying (ExportDefaultDeclaration (ArrayExpression start stop)) = True"
| "qualifying (ExportNamedDeclaration (Some (VariableDeclaration decls))) =
     list_ex array_declarator decls"
| "qualifying stmt = False"

fun declarator_binding :: "string \<Rightarrow> declarator \<Rightarrow> string \<times> string" where
  "declarator_binding source
     (VariableDeclarator (Identifier name) (Some (ArrayExpression start stop))) =
     (slice source start stop, name)"
| "declarator_binding source decl = ('''', '''')"

fun export_binding :: "string \<Rightarrow> node \<Rightarrow> string \<times> string" where
  "export_binding source (ExportDefaultDeclaration (ArrayExpression start stop)) =
     (slice source start stop, ''defaultExport'')"
| "export_binding source (ExportNamedDeclaration (Some (VariableDeclaration decls))) =
     (case filter array_declarator decls of
        [] \<Rightarrow> ('''', '''')
      | decl # others \<Rightarrow> declarator_binding source decl)"
| "export_binding source stmt = ('''', '''')"

text \<open>
  An occurrence of a double-quoted key immediately followed by a colon: a double quote, a
  key, a double quote, a colon, where a key is any non-empty text without a double quote.
\<close>

definition dquoted_key_colon_at :: "string \<Rightarrow> bool" where
  "dquoted_key_colon_at t =
     (case t of
        [] \<Rightarrow> False
      | c # r \<Rightarrow>
          c = dquote \<and> takeWhile (\<lambda>x. x \<noteq> dquote) r \<noteq> [] \<and>
          take 2 (dropWhile (\<lambda>x. x \<noteq> dquote) r) = [dquote, CHR '':''])"

fun dquoted_key_colon_occurs :: "string \<Rightarrow> bool" where
  "dquoted_key_colon_occurs [] = False"
| "dquoted_key_colon_occurs (c # cs) = (dquoted_key_colon_at (c # cs) \<or> dquoted_key_colon_occurs cs)"

section \<open>Mutation helpers\<close>







text \<open>
  A path that \<^verbatim>\<open>updateNestedValue\<close> can write: it is not empty, every segment before
  the last leads on, and the node that receives the last segment is an object and the
  segment is not \<^verbatim>\<open>__proto__\<close> (unless the object has that key), or the node is an array
  and the segment is an index up to its length.
\<close>

fun writable :: "'n jsval \<Rightarrow> string list \<Rightarrow> bool" where
  "writable ref [] = False"
| "writable (JObj kvs) [k] = (k \<noteq> ''__proto__'' \<or> map_of kvs k \<noteq> None)"
| "writable (JArr xs) [k] = (case array_index k of Some i \<Rightarrow> i \<le> length xs | None \<Rightarrow> False)"
| "writable ref [k] = False"
| "writable ref (k # ks) =
     (case get_prop ref k of Inl e \<Rightarrow> False | Inr child \<Rightarrow> writable child ks)"

text \<open>\<^verbatim>\<open>addItem\<close>.\<close>

definition addItem :: "'n editor \<Rightarrow> mutation_error + 'n editor" where
  "addItem s =
     (let newIndex = length (data s);
          prev = data s
      in case Object_keys (nullish_coalesce (item_at prev 0) (JObj [])) of
           Inl e \<Rightarrow> Inl e
         | Inr keys \<Rightarrow>
             Inr (s\<lparr>data := prev @ [Object_fromEntries (map (\<lambda>k. (k, JStr '''')) keys)],
                    newItemIndex := Some newIndex\<rparr>))"

text \<open>
  \<^verbatim>\<open>deleteItem(idx)\<close> is two steps: the click marks the index and schedules the
  callback; the callback, when its timer fires, filters the array by position and unmarks
  the index.
\<close>

definition deleteItem :: "nat \<Rightarrow> 'n editor \<Rightarrow> 'n editor" where
  "deleteItem idx s =
     s\<lparr>deletingItems := insert idx (deletingItems s), timers := timers s @ [idx]\<rparr>"

definition deleteItem_timeout :: "'n editor \<Rightarrow> 'n editor" where
  "deleteItem_timeout s =
     (case timers s of
        [] \<Rightarrow> s
      | idx # rest \<Rightarrow>
          s\<lparr>data := filter_by_index (\<lambda>i. i \<noteq> idx) (data s),
            deletingItems := deletingItems s - {idx},
            timers := rest\<rparr>)"

section \<open>The store\<close>














text \<open>An object or an array, as opposed to a primitive.\<close>

definition container :: "'n jsval \<Rightarrow> bool" where
  "container c = (case c of JObj kvs \<Rightarrow> True | JArr xs \<Rightarrow> True | _ \<Rightarrow> False)"

section \<open>Sample modules and states\<close>

text \<open>
  The document of \<^verbatim>\<open>export const items = [{name:'A', url:'a.png'}, {name:'B', url:'b.png'}]\<close>,
  the same after \<^verbatim>\<open>addItem\<close>, and lists of one-key items.
\<close>

definition items_doc :: "nat jsval list" where
  "items_doc = [JObj [(''name'', JStr ''A''), (''url'', JStr ''a.png'')],
                JObj [(''name'', JStr ''B''), (''url'', JStr ''b.png'')]]"

definition loaded_items :: "nat editor" where
  "loaded_items = initial\<lparr>originalFileName := ''data.ts'', exportName := ''items'',
     data := items_doc, isLoaded := True\<rparr>"

definition appended_items :: "nat editor" where
  "appended_items = loaded_items\<lparr>
     data := items_doc @ [JObj [(''name'', JStr ''''), (''url'', JStr '''')]]\<rparr>"

definition item_named :: "string \<Rightarrow> nat jsval" where
  "item_named n = JObj [(''name'', JStr n)]"

definition three_items :: "nat editor" where
  "three_items = initial\<lparr>data := [item_named ''A'', item_named ''B'', item_named ''C''],
     isLoaded := True\<rparr>"

definition two_items :: "nat editor" where
  "two_items = initial\<lparr>data := [item_named ''A'', item_named ''B''], isLoaded := True\<rparr>"





text \<open>
  Sample modules, with the statements Babel finds in them. \<open>export_const name start stop\<close>
  is the statement \<^verbatim>\<open>export const name = [...]\<close> whose array literal spans the given
  positions.
\<close>

definition src_items :: string where
  "src_items = ''export const items = [{name:'A', url:'a.png'}, {name:'B', url:'b.png'}];''"

definition src_call :: string where
  "src_call = ''export const data = [alert(1)];''"

definition src_no_export :: string where
  "src_no_export = ''import x from './x';\<newline>const a = [1];''"

definition src_throwing :: string where
  "src_throwing = ''import x from './x';\<newline>export const y = [f()];''"

definition src_quoted :: string where
  "src_quoted = ''export const data = [{'' @ [dquote] @ ''my-key'' @ [dquote] @ '': 1}];''"

definition src_spaced :: string where
  "src_spaced = ''export const data = [{'' @ [dquote] @ ''a'' @ [dquote] @ '' : 1}];''"

definition src_two :: string where
  "src_two = ''import a from './a';\<newline>function f() { return [0]; }\<newline>export const first = [1], second = [2];\<newline>export default [3];''"

definition export_const :: "string \<Rightarrow> nat \<Rightarrow> nat \<Rightarrow> node" where
  "export_const name start stop =
     ExportNamedDeclaration (Some (VariableDeclaration
       [VariableDeclarator (Identifier name) (Some (ArrayExpression start stop))]))"

definition body_two :: "node list" where
  "body_two =
     [OtherNode ''ImportDeclaration'' [],
      OtherNode ''FunctionDeclaration''
        [OtherNode ''BlockStatement'' [OtherNode ''ReturnStatement'' [ArrayExpression 43 46]]],
      ExportNamedDeclaration (Some (VariableDeclaration
        [VariableDeclarator (Identifier ''first'') (Some (ArrayExpression 71 74)),
         VariableDeclarator (Identifier ''second'') (Some (ArrayExpression 85 88))])),
      ExportDefaultDeclaration (ArrayExpression 105 108)]"

definition sample_babel :: "string \<Rightarrow> string + node list" where
  "sample_babel source =
     (if source = src_items then Inr [export_const ''items'' 21 71]
      else if source = src_call then Inr [export_const ''data'' 20 30]
      else if source = src_no_export then
        Inr [OtherNode ''ImportDeclaration'' [],
             VariableDeclaration
               [VariableDeclarator (Identifier ''a'') (Some (ArrayExpression 31 34))]]
      else if source = src_throwing then
        Inr [OtherNode ''ImportDeclaration'' [], export_const ''y'' 38 43]
      else if source = src_quoted then Inr [export_const ''data'' 20 35]
      else if source = src_spaced then Inr [export_const ''data'' 20 31]
      else if source = src_two then Inr body_two
      else Inl ''not a sample module'')"

text \<open>
  What a browser returns for the function bodies that \<^verbatim>\<open>safeEval\<close> builds from the
  array literals of the sample modules: \<^verbatim>\<open>alert(1)\<close> shows a dialog and returns
  \<^verbatim>\<open>undefined\<close>; \<^verbatim>\<open>f()\<close> raises a \<^verbatim>\<open>ReferenceError\<close>.
\<close>

definition strict_return :: "string \<Rightarrow> string" where
  "strict_return code = [dquote] @ ''use strict'' @ [dquote] @ ''; return ('' @ code @ '');''"

definition sample_host :: "string \<Rightarrow> string + nat jsval" where
  "sample_host body =
     (if body = strict_return ''[{name:'A', url:'a.png'}, {name:'B', url:'b.png'}]''
        then Inr (JArr items_doc)
      else if body = strict_return ''[alert(1)]'' then Inr (JArr [JUndefined])
      else if body = strict_return ''[f()]'' then Inl ''f is not defined''
      else if body = strict_return (''[{'' @ [dquote] @ ''my-key'' @ [dquote] @ '': 1}]'')
        then Inr (JArr [JObj [(''my-key'', JNum 1)]])
      else if body = strict_return (''[{'' @ [dquote] @ ''a'' @ [dquote] @ '' : 1}]'')
        then Inr (JArr [JObj [(''a'', JNum 1)]])
      else if body = strict_return ''[1]'' then Inr (JArr [JNum 1])
      else Inl ''not a sample body'')"

text \<open>
  \<open>sample_libs\<close>: \<^verbatim>\<open>JSON5.parse\<close> rejects a text between parentheses, as the grammar of
  JSON5 has none.
\<close>

definition sample_libs :: "nat libs" where
  "sample_libs = \<lparr>babel_parse = sample_babel,
     JSON5_parse = (\<lambda>t. Inl ''JSON5: invalid character''),
     new_Function = sample_host\<rparr>"

chapter \<open>Properties\<close>

section \<open>The printer\<close>

lemma repeat_0: "repeat s 0 = []"
  by (simp add: repeat_def)

lemma repeat_Suc: "repeat s (Suc n) = s @ repeat s n"
  by (simp add: repeat_def)

text \<open>
  C1 (round trip). Decoding the printer's output again is required to give back the
  document. The printer does not escape the characters of a string, so the two different
  documents \<open>doc_injected\<close> and \<open>doc_two_keys\<close> are printed as the same text: whatever reads
  that text back returns the wrong tree for one of them. Both are values a load produces.
\<close>

theorem stringify_not_injective:
  "stringify num False doc_injected 0 = stringify num False doc_two_keys 0
   \<and> (doc_injected :: 'n jsval) \<noteq> doc_two_keys"
  by (simp add: doc_injected_def doc_two_keys_def repeat_def)

text \<open>
  C8 (layout). An empty array is printed as \<^verbatim>\<open>[]\<close>. An empty object is not printed as
  \<^verbatim>\<open>{}\<close>: the object branch joins no entries and still emits both line breaks and the
  indentation, for any indentation level and either key style.
\<close>

theorem stringify_empty_object:
  "stringify num q (JObj []) indent = ''{\<newline>\<newline>'' @ repeat ''  '' indent @ ''}''
   \<and> stringify num q (JObj []) indent \<noteq> ''{}''
   \<and> stringify num q (JArr []) indent = ''[]''"
  by simp

section \<open>Property access\<close>



lemma obj_replace_fst [simp]:
  "fst \<circ> (\<lambda>(k', v'). if k' = k then (k', v) else (k', v')) = fst"
  by (auto simp: fun_eq_iff)






lemma set_obj_insert_index: "set (obj_insert_index i k v kvs) = insert (k, v) (set kvs)"
  by (induction kvs) (auto split: option.splits if_splits)

lemma map_fst_obj_replace:
  "map fst (map (\<lambda>(k', v'). if k' = k then (k', v) else (k', v')) kvs) = map fst kvs"
  by simp

lemma keys_obj_set: "fst ` set (obj_set kvs k v) = insert k (fst ` set kvs)"
proof (cases "k \<in> set (map fst kvs)")
  case True
  have "fst ` set (obj_set kvs k v) =
        set (map fst (map (\<lambda>(k', v'). if k' = k then (k', v) else (k', v')) kvs))"
    using True by (simp only: obj_set_def if_True set_map)
  also have "\<dots> = fst ` set kvs" by (simp only: map_fst_obj_replace set_map)
  finally show ?thesis using True by auto
next
  case False
  then show ?thesis
    by (cases "array_index k") (simp_all add: obj_set_def set_obj_insert_index)
qed

lemma vals_obj_replace:
  "snd ` set (map (\<lambda>(k', v'). if k' = k then (k', v) else (k', v')) kvs)
     \<subseteq> insert v (snd ` set kvs)"
  by (fastforce split: if_splits)

lemma vals_obj_set: "snd ` set (obj_set kvs k v) \<subseteq> insert v (snd ` set kvs)"
proof (cases "k \<in> set (map fst kvs)")
  case True
  with vals_obj_replace[of k v kvs] show ?thesis by (simp only: obj_set_def if_True)
next
  case False
  then show ?thesis
    by (cases "array_index k") (simp_all add: obj_set_def set_obj_insert_index)
qed

lemma distinct_obj_insert_index:
  "distinct (map fst kvs) \<Longrightarrow> k \<notin> fst ` set kvs \<Longrightarrow>
   distinct (map fst (obj_insert_index i k v kvs))"
proof (induction kvs)
  case Nil
  then show ?case by simp
next
  case (Cons a kvs)
  obtain k' v' where a: "a = (k', v')" by (cases a)
  from Cons.prems have d: "distinct (map fst kvs)" "k' \<notin> fst ` set kvs" "k \<noteq> k'"
    "k \<notin> fst ` set kvs" by (auto simp: a)
  from Cons.IH[OF d(1) d(4)] have ih: "distinct (map fst (obj_insert_index i k v kvs))" .
  have "k' \<notin> fst ` set (obj_insert_index i k v kvs)"
    using d by (simp add: set_obj_insert_index)
  with ih d show ?case
    by (cases "array_index k'") (simp_all add: a)
qed

lemma distinct_obj_set:
  assumes "distinct (map fst kvs)"
  shows "distinct (map fst (obj_set kvs k v))"
proof (cases "k \<in> set (map fst kvs)")
  case True
  have "map fst (obj_set kvs k v) = map fst kvs"
    using True by (simp only: obj_set_def if_True map_fst_obj_replace)
  with assms show ?thesis by simp
next
  case False
  with assms show ?thesis
    by (cases "array_index k") (simp_all add: obj_set_def distinct_obj_insert_index)
qed

lemma fromEntries_fold:
  "fst ` set (foldl (\<lambda>kvs (k, v). obj_set kvs k v) acc es) = fst ` set acc \<union> fst ` set es
   \<and> snd ` set (foldl (\<lambda>kvs (k, v). obj_set kvs k v) acc es) \<subseteq> snd ` set acc \<union> snd ` set es
   \<and> (distinct (map fst acc) \<longrightarrow> distinct (map fst (foldl (\<lambda>kvs (k, v). obj_set kvs k v) acc es)))"
proof (induction es arbitrary: acc)
  case Nil
  then show ?case by simp
next
  case (Cons e es)
  obtain k v where e: "e = (k, v)" by (cases e)
  from Cons[of "obj_set acc k v"] vals_obj_set[of acc k v] keys_obj_set[of acc k v]
    distinct_obj_set[of acc k v]
  show ?case
    unfolding e by simp blast
qed

section \<open>Appending an item\<close>

text \<open>
  C10 (schema of the appended item). \<^verbatim>\<open>addItem\<close> never fails and appends exactly one
  object at the end of the root. The values of the new object are all the empty string and
  its keys are distinct. When the root is empty the object has no keys; when the first
  element of the root is an object, the key set of the new object is the key set of that
  element; for any first element it is the set of the keys that \<^verbatim>\<open>Object.keys\<close> lists
  for it (none for \<^verbatim>\<open>null\<close>, a number or a boolean).
\<close>

theorem addItem_schema:
  "\<exists>es. addItem s = Inr (s\<lparr>data := data s @ [JObj es], newItemIndex := Some (length (data s))\<rparr>)
     \<and> distinct (map fst es)
     \<and> snd ` set es \<subseteq> {JStr ''''}
     \<and> (data s = [] \<longrightarrow> es = [])
     \<and> (\<forall>kvs rest. data s = JObj kvs # rest \<longrightarrow> fst ` set es = fst ` set kvs)
     \<and> (\<forall>first rest. data s = first # rest \<longrightarrow>
           (\<exists>ks. Object_keys (nullish_coalesce first (JObj [])) = Inr ks \<and> fst ` set es = set ks))"
proof -
  obtain ks where ks: "Object_keys (nullish_coalesce (item_at (data s) 0) (JObj [])) = Inr ks"
    by (cases "item_at (data s) 0") auto
  let ?es = "foldl (\<lambda>kvs (k, v). obj_set kvs k v) [] (map (\<lambda>k. (k, JStr '''')) ks)"
  have r: "addItem s = Inr (s\<lparr>data := data s @ [JObj ?es], newItemIndex := Some (length (data s))\<rparr>)"
    by (simp add: addItem_def ks Object_fromEntries_def Let_def)
  have f: "fst ` set ?es = set ks" "snd ` set ?es \<subseteq> {JStr ''''}" "distinct (map fst ?es)"
    using fromEntries_fold[of "[]" "map (\<lambda>k. (k, JStr '''')) ks"] by (auto simp: image_image)
  have e: "data s = [] \<longrightarrow> ?es = []"
    using ks by (auto simp: item_at_def)
  have o: "\<forall>kvs rest. data s = JObj kvs # rest \<longrightarrow> fst ` set ?es = fst ` set kvs"
  proof (intro allI impI)
    fix kvs rest
    assume "data s = JObj kvs # rest"
    with ks have "ks = map fst kvs" by (simp add: item_at_def)
    with f(1) show "fst ` set ?es = fst ` set kvs" by simp
  qed
  have g: "\<forall>first rest. data s = first # rest \<longrightarrow>
       (\<exists>ks'. Object_keys (nullish_coalesce first (JObj [])) = Inr ks' \<and> fst ` set ?es = set ks')"
  proof (intro allI impI)
    fix first rest
    assume "data s = first # rest"
    with ks have "Object_keys (nullish_coalesce first (JObj [])) = Inr ks"
      by (simp add: item_at_def)
    with f(1) show "\<exists>ks'. Object_keys (nullish_coalesce first (JObj [])) = Inr ks'
        \<and> fst ` set ?es = set ks'"
      by (intro exI[of _ ks] conjI)
  qed
  show ?thesis
    by (rule exI[of _ ?es]) (intro conjI r f(3) f(2) e o g)
qed

theorem addItem_schema_witness:
  "addItem (initial :: nat editor) = Inr (initial\<lparr>data := [JObj []], newItemIndex := Some 0\<rparr>)
   \<and> (\<exists>es. addItem loaded_items =
              Inr (loaded_items\<lparr>data := items_doc @ [JObj es], newItemIndex := Some 2\<rparr>)
          \<and> fst ` set es = {''name'', ''url''} \<and> snd ` set es \<subseteq> {JStr ''''})"
proof -
  have e: "data (initial :: nat editor) = []" by (simp add: initial_def)
  have o: "data loaded_items = JObj [(''name'', JStr ''A''), (''url'', JStr ''a.png'')]
             # [JObj [(''name'', JStr ''B''), (''url'', JStr ''b.png'')]]"
    by (simp add: loaded_items_def items_doc_def)
  from addItem_schema[of "initial :: nat editor"] obtain es0 where
    es0: "addItem (initial :: nat editor) =
            Inr (initial\<lparr>data := data initial @ [JObj es0],
                          newItemIndex := Some (length (data (initial :: nat editor)))\<rparr>)"
         "data (initial :: nat editor) = [] \<longrightarrow> es0 = []"
    by (elim exE conjE)
  from es0(2) e have "es0 = []" by simp
  with es0(1) have 1: "addItem (initial :: nat editor) =
      Inr (initial\<lparr>data := [JObj []], newItemIndex := Some 0\<rparr>)"
    by (simp add: e)
  from addItem_schema[of loaded_items] obtain es where
    es: "addItem loaded_items =
           Inr (loaded_items\<lparr>data := data loaded_items @ [JObj es],
                              newItemIndex := Some (length (data loaded_items))\<rparr>)"
        "snd ` set es \<subseteq> {JStr ''''}"
        "\<forall>kvs rest. data loaded_items = JObj kvs # rest \<longrightarrow> fst ` set es = fst ` set kvs"
    by (elim exE conjE)
  from es(3) o have k: "fst ` set es = {''name'', ''url''}" by simp
  from es(1) have 2: "addItem loaded_items =
      Inr (loaded_items\<lparr>data := items_doc @ [JObj es], newItemIndex := Some 2\<rparr>)"
    by (simp add: o) (simp add: items_doc_def)
  from 2 k es(2) have "\<exists>es. addItem loaded_items =
              Inr (loaded_items\<lparr>data := items_doc @ [JObj es], newItemIndex := Some 2\<rparr>)
          \<and> fst ` set es = {''name'', ''url''} \<and> snd ` set es \<subseteq> {JStr ''''}"
    by (intro exI[of _ es] conjI)
  with 1 show ?thesis by (intro conjI)
qed

section \<open>Deleting an item\<close>

lemma filter_enumerate_ne:
  "map snd (filter (\<lambda>(i, x). i \<noteq> idx) (enumerate n xs)) =
     (if idx < n then xs else take (idx - n) xs @ drop (Suc (idx - n)) xs)"
proof (induction xs arbitrary: n)
  case Nil
  then show ?case by simp
next
  case (Cons x xs)
  show ?case
  proof (cases "idx = n")
    case True
    with Cons[of "Suc n"] show ?thesis by simp
  next
    case False
    show ?thesis
    proof (cases "idx < n")
      case True
      with Cons[of "Suc n"] show ?thesis by simp
    next
      case ge: False
      with False have "idx - n = Suc (idx - Suc n)" by simp
      with Cons[of "Suc n"] False ge show ?thesis by simp
    qed
  qed
qed

lemma filter_by_index_ne: "filter_by_index (\<lambda>i. i \<noteq> idx) xs = take idx xs @ drop (Suc idx) xs"
  by (simp add: filter_by_index_def filter_enumerate_ne)

text \<open>
  C5 (deletion), as the code has it. \<^verbatim>\<open>deleteItem\<close> identifies the item by its position
  at the time of the click. When no other deletion is pending and the position exists, the
  callback removes exactly the item at that position, the items behind it move up by one,
  the position is no longer marked and no timer is left.
\<close>

theorem deleteItem_single:
  assumes "timers s = []" and "idx < length (data s)"
  shows "data (deleteItem_timeout (deleteItem idx s)) = take idx (data s) @ drop (Suc idx) (data s)
       \<and> length (data (deleteItem_timeout (deleteItem idx s))) = length (data s) - 1
       \<and> (\<forall>j < length (data s) - 1.
             data (deleteItem_timeout (deleteItem idx s)) ! j =
             data s ! (if j < idx then j else Suc j))
       \<and> deletingItems (deleteItem_timeout (deleteItem idx s)) = deletingItems s - {idx}
       \<and> timers (deleteItem_timeout (deleteItem idx s)) = []"
proof -
  have d: "data (deleteItem_timeout (deleteItem idx s)) = take idx (data s) @ drop (Suc idx) (data s)"
    using assms(1) by (simp add: deleteItem_def deleteItem_timeout_def filter_by_index_ne)
  have r: "deletingItems (deleteItem_timeout (deleteItem idx s)) = deletingItems s - {idx}"
       "timers (deleteItem_timeout (deleteItem idx s)) = []"
    using assms(1) by (simp_all add: deleteItem_def deleteItem_timeout_def)
  have n: "(take idx (data s) @ drop (Suc idx) (data s)) ! j =
           data s ! (if j < idx then j else Suc j)" if "j < length (data s) - 1" for j
    using that assms(2) by (auto simp: nth_append min_def)
  from d r n assms(2) show ?thesis by (simp add: min_def)
qed

theorem deleteItem_single_witness:
  "data (deleteItem_timeout (deleteItem 0 three_items)) = [item_named ''B'', item_named ''C'']
   \<and> deletingItems (deleteItem_timeout (deleteItem 0 three_items)) = {}
   \<and> timers (deleteItem_timeout (deleteItem 0 three_items)) = []"
  using deleteItem_single[of three_items 0]
  by (simp add: three_items_def initial_def)

text \<open>
  The claim as stated fails when two deletions are pending. Items 0 and 1 of
  \<open>[A, B, C]\<close> are clicked. After the first callback the array is \<open>[B, C]\<close> and the
  pending set is \<open>{1}\<close>, which now designates \<open>C\<close>; the second callback removes \<open>C\<close> and
  keeps \<open>B\<close>. With \<open>[A, B]\<close> the first callback leaves the pending index 1 on an array of
  length 1, and the second callback removes nothing.
\<close>

theorem deleteItem_concurrent_counterexample:
  "data (deleteItem_timeout (deleteItem 1 (deleteItem 0 three_items))) =
     [item_named ''B'', item_named ''C'']
   \<and> deletingItems (deleteItem_timeout (deleteItem 1 (deleteItem 0 three_items))) = {1}
   \<and> data (deleteItem_timeout (deleteItem_timeout (deleteItem 1 (deleteItem 0 three_items)))) =
     [item_named ''B'']
   \<and> data (deleteItem_timeout (deleteItem_timeout (deleteItem 1 (deleteItem 0 three_items)))) \<noteq>
     [item_named ''C'']
   \<and> data (deleteItem_timeout (deleteItem 1 (deleteItem 0 two_items))) = [item_named ''B'']
   \<and> deletingItems (deleteItem_timeout (deleteItem 1 (deleteItem 0 two_items))) = {1}
   \<and> data (deleteItem_timeout (deleteItem_timeout (deleteItem 1 (deleteItem 0 two_items)))) =
     [item_named ''B'']"
  by (auto simp: deleteItem_def deleteItem_timeout_def filter_by_index_def three_items_def
        two_items_def initial_def item_named_def)

section \<open>Writing at a path\<close>

subsection \<open>On values\<close>






lemma writable_container: "writable c p \<Longrightarrow> container c"
proof (induction p arbitrary: c)
  case Nil
  then show ?case by simp
next
  case (Cons k ks)
  show ?case
  proof (cases ks)
    case Nil
    with Cons.prems show ?thesis by (cases c) (auto simp: container_def)
  next
    case (Cons k' ks')
    with Cons.prems obtain child where c: "get_prop c k = Inr child" "writable child ks"
      by (auto split: sum.splits)
    from Cons.IH[OF c(2)] c(1) show ?thesis
      by (cases c) (auto simp: container_def array_get_def split: option.splits if_splits)
  qed
qed




subsection \<open>On the store\<close>























subsection \<open>Mutation locality\<close>



lemma array_index_tags: "array_index ''tags'' = None"
  by (simp add: array_index_def is_digit_def)








section \<open>Unfolding the load\<close>

text \<open>The definitions that an evaluation of a sample load unfolds.\<close>

lemmas sample_defs = sample_libs_def sample_babel_def sample_host_def strict_return_def
  export_const_def src_items_def src_call_def src_no_export_def src_throwing_def
  src_quoted_def src_spaced_def src_two_def body_two_def

lemmas load_defs = parseDataFile_def parseDataFile_try_def tier1_def tier2_def safeEval_def
  slice_def match_imports_def import_match_def is_space_def is_line_terminator_def

lemmas regex_defs = quoted_key_at_def dquoted_key_colon_at_def dquote_def is_word_char_def

text \<open>The three ways through \<^verbatim>\<open>parseDataFile\<close>, and the two decoders by their results.\<close>

lemma parseDataFile_try_found:
  assumes "babel_parse L source = Inr body"
    and "scan_statements source body ('''', ''data'') = (arraySlice, name)"
    and "arraySlice \<noteq> []"
  shows "parseDataFile_try L source s =
     (case tier1 L arraySlice of
        Inr parsed \<Rightarrow>
          (None, s\<lparr>originalImports := array_join ''\<newline>'' (match_imports source),
                   exportName := name, data := parsed,
                   quotedKeys := quotedKeys_test arraySlice, error := ''''\<rparr>)
      | Inl e \<Rightarrow>
          (case tier2 L arraySlice of
             Inr evaluated \<Rightarrow>
               (None, s\<lparr>originalImports := array_join ''\<newline>'' (match_imports source),
                        exportName := name, data := evaluated,
                        quotedKeys := quotedKeys_test arraySlice, error := ''''\<rparr>)
           | Inl err \<Rightarrow>
               (Some err, s\<lparr>originalImports := array_join ''\<newline>'' (match_imports source),
                            exportName := name\<rparr>)))"
  using assms by (simp add: parseDataFile_try_def Let_def split: sum.splits)

lemma parseDataFile_try_not_found:
  assumes "babel_parse L source = Inr body"
    and "fst (scan_statements source body ('''', ''data'')) = []"
  shows "parseDataFile_try L source s =
     (Some NoExportedArray, s\<lparr>originalImports := array_join ''\<newline>'' (match_imports source)\<rparr>)"
  using assms by (auto simp: parseDataFile_try_def Let_def split: prod.splits)

lemma parseDataFile_try_parser_error:
  assumes "babel_parse L source = Inl m"
  shows "parseDataFile_try L source s =
     (Some (Thrown m), s\<lparr>originalImports := array_join ''\<newline>'' (match_imports source)\<rparr>)"
  using assms by (simp add: parseDataFile_try_def Let_def)

lemma tier1_array: "tier1 L t = Inr xs \<longleftrightarrow> JSON5_parse L (''('' @ t @ '')'') = Inr (JArr xs)"
  by (auto simp: tier1_def split: sum.splits jsval.splits)

lemma tier2_cases:
  "tier2 L t = Inr xs \<longleftrightarrow> safeEval L t = Inr (JArr xs)"
  "tier2 L t = Inl (Thrown m) \<longleftrightarrow> safeEval L t = Inl m"
  "tier2 L t = Inl NotAnArray \<longleftrightarrow> (\<exists>v. safeEval L t = Inr v \<and> (\<forall>xs. v \<noteq> JArr xs))"
  "tier2 L t \<noteq> Inl NoExportedArray"
  by (auto simp: tier2_def split: sum.splits jsval.splits)

lemma parseDataFile_found:
  assumes "babel_parse L source = Inr body"
    and "scan_statements source body ('''', ''data'') = (arraySlice, name)"
    and "arraySlice \<noteq> []"
  shows "exportName (snd (parseDataFile L source s)) = name"
  using assms
  by (simp add: parseDataFile_def parseDataFile_try_found split: sum.splits)

section \<open>The scan\<close>

lemma scan_declarations_none:
  "\<not> list_ex array_declarator decls \<Longrightarrow> scan_declarations source decls found = found"
  by (induction source decls found rule: scan_declarations.induct) auto

lemma scan_declarations_first:
  "list_ex array_declarator decls \<Longrightarrow>
   scan_declarations source decls found =
     (case filter array_declarator decls of
        [] \<Rightarrow> ('''', '''')
      | decl # others \<Rightarrow> declarator_binding source decl)"
  by (induction source decls found rule: scan_declarations.induct) auto

lemma scan_statements_skip:
  "\<not> qualifying stmt \<Longrightarrow>
   scan_statements source (stmt # rest) ('''', d) = scan_statements source rest ('''', d)"
  by (cases "(source, stmt # rest, ('''' :: string, d))" rule: scan_statements.cases)
     (auto simp: scan_declarations_none)

lemma scan_statements_hit:
  "qualifying stmt \<Longrightarrow> fst (export_binding source stmt) \<noteq> [] \<Longrightarrow>
   scan_statements source (stmt # rest) found = export_binding source stmt"
  by (cases "(source, stmt # rest, found)" rule: scan_statements.cases)
     (auto simp: scan_declarations_first Let_def)

lemma scan_statements_first:
  "\<forall>m\<in>set pre. \<not> qualifying m \<Longrightarrow> qualifying stmt \<Longrightarrow>
   fst (export_binding source stmt) \<noteq> [] \<Longrightarrow>
   scan_statements source (pre @ stmt # post) ('''', d) = export_binding source stmt"
  by (induction pre) (simp_all add: scan_statements_skip scan_statements_hit)

lemma scan_statements_none:
  "\<forall>m\<in>set body. \<not> qualifying m \<Longrightarrow> scan_statements source body ('''', d) = ('''', d)"
  by (induction body) (simp_all add: scan_statements_skip)

lemma scan_statements_nested:
  "fst found = [] \<Longrightarrow>
   scan_statements source (pre @ OtherNode t kids # post) found =
   scan_statements source (pre @ post) found"
proof (induction source pre found rule: scan_statements.induct)
  case (1 source found)
  then show ?case by simp
next
  case (2 source start stop rest found)
  then show ?case by simp
next
  case (3 source decls rest found)
  then show ?case by (simp add: Let_def)
qed simp_all

text \<open>
  C7 (scanner precedence). The scan walks the top-level statements in source order. When no
  statement before \<open>stmt\<close> qualifies and \<open>stmt\<close> does, with a literal whose span is not
  empty (an array literal has at least its two brackets), the scan binds the literal and the
  name of \<open>stmt\<close>, whatever follows; the export name of the state becomes that name
  and the load does not fail with \<open>NoExportedArray\<close>. A statement of any other type is
  passed over whatever it contains, an array literal in a function body included. When no
  statement qualifies the load fails with the message of \<open>NoExportedArray\<close>.
\<close>

theorem scanner_first_match:
  "((\<forall>m\<in>set pre. \<not> qualifying m) \<and> qualifying stmt \<and> fst (export_binding source stmt) \<noteq> []
      \<and> babel_parse L source = Inr (pre @ stmt # post)
     \<longrightarrow> scan_statements source (pre @ stmt # post) ('''', ''data'') = export_binding source stmt
        \<and> exportName (snd (parseDataFile L source s)) = snd (export_binding source stmt)
        \<and> fst (parseDataFile_try L source s) \<noteq> Some NoExportedArray)
   \<and> scan_statements source (pre @ OtherNode t kids # post) ('''', ''data'') =
       scan_statements source (pre @ post) ('''', ''data'')
   \<and> ((\<forall>m\<in>set body. \<not> qualifying m) \<and> babel_parse L source = Inr body
     \<longrightarrow> parseDataFile L source s =
          (False, s\<lparr>originalImports := array_join ''\<newline>'' (match_imports source),
                     error := ''Failed to parse file: No exported array found.''\<rparr>))"
proof (intro conjI impI)
  assume a: "(\<forall>m\<in>set pre. \<not> qualifying m) \<and> qualifying stmt
      \<and> fst (export_binding source stmt) \<noteq> [] \<and> babel_parse L source = Inr (pre @ stmt # post)"
  then show f: "scan_statements source (pre @ stmt # post) ('''', ''data'') = export_binding source stmt"
    by (simp add: scan_statements_first)
  obtain arraySlice name where b: "export_binding source stmt = (arraySlice, name)"
    by (cases "export_binding source stmt")
  with a f have c: "babel_parse L source = Inr (pre @ stmt # post)"
      "scan_statements source (pre @ stmt # post) ('''', ''data'') = (arraySlice, name)"
      "arraySlice \<noteq> []"
    by simp_all
  from parseDataFile_found[OF c] b
  show "exportName (snd (parseDataFile L source s)) = snd (export_binding source stmt)"
    by simp
  from parseDataFile_try_found[OF c]
  show "fst (parseDataFile_try L source s) \<noteq> Some NoExportedArray"
    using tier2_cases(4)[of L arraySlice] by (auto split: sum.splits)
next
  show "scan_statements source (pre @ OtherNode t kids # post) ('''', ''data'') =
       scan_statements source (pre @ post) ('''', ''data'')"
    by (simp add: scan_statements_nested)
next
  assume "(\<forall>m\<in>set body. \<not> qualifying m) \<and> babel_parse L source = Inr body"
  then show "parseDataFile L source s =
          (False, s\<lparr>originalImports := array_join ''\<newline>'' (match_imports source),
                     error := ''Failed to parse file: No exported array found.''\<rparr>)"
    by (simp add: parseDataFile_def parseDataFile_try_not_found scan_statements_none)
qed

theorem scanner_first_match_witness:
  "scan_statements src_two body_two ('''', ''data'') = (''[1]'', ''first'')
   \<and> exportName (snd (parseDataFile sample_libs src_two initial)) = ''first''
   \<and> parseDataFile sample_libs src_no_export loaded_items =
       (False, loaded_items\<lparr>originalImports := ''import x from './x';'',
                 error := ''Failed to parse file: No exported array found.''\<rparr>)"
proof -
  let ?pre = "[OtherNode ''ImportDeclaration'' [],
      OtherNode ''FunctionDeclaration''
        [OtherNode ''BlockStatement'' [OtherNode ''ReturnStatement'' [ArrayExpression 43 46]]]]"
  let ?stmt = "ExportNamedDeclaration (Some (VariableDeclaration
        [VariableDeclarator (Identifier ''first'') (Some (ArrayExpression 71 74)),
         VariableDeclarator (Identifier ''second'') (Some (ArrayExpression 85 88))]))"
  let ?post = "[ExportDefaultDeclaration (ArrayExpression 105 108)]"
  let ?body = "[OtherNode ''ImportDeclaration'' [],
             VariableDeclaration
               [VariableDeclarator (Identifier ''a'') (Some (ArrayExpression 31 34))]]"
  have b: "body_two = ?pre @ ?stmt # ?post" by (simp add: body_two_def)
  have e: "export_binding src_two ?stmt = (''[1]'', ''first'')"
    by (simp add: src_two_def slice_def)
  have m: "match_imports src_no_export = [''import x from './x';'']"
    by (simp add: match_imports_def src_no_export_def import_match_def is_space_def
          is_line_terminator_def)
  have q: "(\<forall>m\<in>set ?pre. \<not> qualifying m) \<and> qualifying ?stmt" by simp
  have n: "fst (export_binding src_two ?stmt) \<noteq> []" by (simp only: e fst_conv) simp
  have p: "babel_parse sample_libs src_two = Inr (?pre @ ?stmt # ?post)"
    by (simp add: sample_defs)
  from q n p have h1: "(\<forall>m\<in>set ?pre. \<not> qualifying m) \<and> qualifying ?stmt
      \<and> fst (export_binding src_two ?stmt) \<noteq> []
      \<and> babel_parse sample_libs src_two = Inr (?pre @ ?stmt # ?post)"
    by (intro conjI) blast+
  have h2: "(\<forall>m\<in>set ?body. \<not> qualifying m) \<and> babel_parse sample_libs src_no_export = Inr ?body"
    by (simp add: sample_defs)
  from scanner_first_match[where pre="?pre" and stmt="?stmt" and post="?post"
      and source=src_two and L=sample_libs and s=initial, THEN conjunct1, THEN mp, OF h1]
  have 1: "scan_statements src_two body_two ('''', ''data'') = (''[1]'', ''first'')"
    "exportName (snd (parseDataFile sample_libs src_two initial)) = ''first''"
    by (simp_all only: b e snd_conv)
  from scanner_first_match[where body="?body" and source=src_no_export and L=sample_libs
      and s=loaded_items, THEN conjunct2, THEN conjunct2, THEN mp, OF h2]
  have 2: "parseDataFile sample_libs src_no_export loaded_items =
       (False, loaded_items\<lparr>originalImports := ''import x from './x';'',
                 error := ''Failed to parse file: No exported array found.''\<rparr>)"
    by (simp add: m)
  from 1 2 show ?thesis by simp
qed

section \<open>The key style\<close>

lemma not_word_dquote: "\<not> is_word_char dquote"
  by (simp add: is_word_char_def dquote_def)

lemma not_space_colon: "\<not> is_space (CHR '':'')"
  by (simp add: is_space_def)

lemma quoted_key_at_iff:
  "quoted_key_at t \<longleftrightarrow>
     (\<exists>k ws post. t = [dquote] @ k @ [dquote] @ ws @ '':'' @ post \<and> k \<noteq> []
        \<and> (\<forall>c\<in>set k. is_word_char c) \<and> (\<forall>c\<in>set ws. is_space c))"
proof
  assume q: "quoted_key_at t"
  then obtain r where t: "t = dquote # r" by (auto simp: quoted_key_at_def split: list.splits)
  let ?k = "takeWhile is_word_char r"
  from q t obtain r1 where r1: "dropWhile is_word_char r = dquote # r1" and k: "?k \<noteq> []"
    by (auto simp: quoted_key_at_def split: list.splits)
  let ?ws = "takeWhile is_space r1"
  from q t r1 obtain r2 where r2: "dropWhile is_space r1 = CHR '':'' # r2"
    by (auto simp: quoted_key_at_def split: list.splits)
  have "r = ?k @ dropWhile is_word_char r" by simp
  also have "\<dots> = ?k @ dquote # r1" by (simp only: r1)
  also have "r1 = ?ws @ dropWhile is_space r1" by simp
  finally have "t = [dquote] @ ?k @ [dquote] @ ?ws @ '':'' @ r2"
    by (simp add: t r2)
  moreover have "\<forall>c\<in>set ?k. is_word_char c" by (auto dest: set_takeWhileD)
  moreover have "\<forall>c\<in>set ?ws. is_space c" by (auto dest: set_takeWhileD)
  ultimately show "\<exists>k ws post. t = [dquote] @ k @ [dquote] @ ws @ '':'' @ post \<and> k \<noteq> []
        \<and> (\<forall>c\<in>set k. is_word_char c) \<and> (\<forall>c\<in>set ws. is_space c)"
    using k by blast
next
  assume "\<exists>k ws post. t = [dquote] @ k @ [dquote] @ ws @ '':'' @ post \<and> k \<noteq> []
        \<and> (\<forall>c\<in>set k. is_word_char c) \<and> (\<forall>c\<in>set ws. is_space c)"
  then obtain k ws post where t: "t = dquote # k @ dquote # ws @ CHR '':'' # post"
    and k: "k \<noteq> []" "\<forall>c\<in>set k. is_word_char c" and ws: "\<forall>c\<in>set ws. is_space c"
    by auto
  have 1: "takeWhile is_word_char (k @ dquote # ws @ CHR '':'' # post) = k"
    using k(2) not_word_dquote by (simp add: takeWhile_append2)
  have 2: "dropWhile is_word_char (k @ dquote # ws @ CHR '':'' # post) = dquote # ws @ CHR '':'' # post"
    using k(2) not_word_dquote by (simp add: dropWhile_append2)
  have 3: "dropWhile is_space (ws @ CHR '':'' # post) = CHR '':'' # post"
    using ws not_space_colon by (simp add: dropWhile_append2)
  show "quoted_key_at t"
    by (simp add: quoted_key_at_def t 1 2 3 k(1))
qed

lemma quotedKeys_test_iff_suffix:
  "quotedKeys_test t \<longleftrightarrow> (\<exists>pre suf. t = pre @ suf \<and> quoted_key_at suf)"
proof (induction t)
  case Nil
  then show ?case by (simp add: quoted_key_at_def)
next
  case (Cons c cs)
  show ?case
  proof
    assume "quotedKeys_test (c # cs)"
    then consider "quoted_key_at (c # cs)" | "quotedKeys_test cs" by auto
    then show "\<exists>pre suf. c # cs = pre @ suf \<and> quoted_key_at suf"
    proof cases
      case 1
      then have "c # cs = [] @ (c # cs) \<and> quoted_key_at (c # cs)" by simp
      then show ?thesis by blast
    next
      case 2
      with Cons obtain pre suf where "cs = pre @ suf" "quoted_key_at suf" by blast
      then have "c # cs = (c # pre) @ suf \<and> quoted_key_at suf" by simp
      then show ?thesis by blast
    qed
  next
    assume "\<exists>pre suf. c # cs = pre @ suf \<and> quoted_key_at suf"
    then obtain pre suf where p: "c # cs = pre @ suf" "quoted_key_at suf" by blast
    show "quotedKeys_test (c # cs)"
    proof (cases pre)
      case Nil
      with p have "quoted_key_at (c # cs)" by simp
      then show ?thesis by simp
    next
      case (Cons a pre')
      with p have "cs = pre' @ suf" by simp
      with p(2) Cons.IH show ?thesis by auto
    qed
  qed
qed

lemma quotedKeys_test_iff:
  "quotedKeys_test t \<longleftrightarrow>
     (\<exists>pre k ws post. t = pre @ [dquote] @ k @ [dquote] @ ws @ '':'' @ post \<and> k \<noteq> []
        \<and> (\<forall>c\<in>set k. is_word_char c) \<and> (\<forall>c\<in>set ws. is_space c))"
  unfolding quotedKeys_test_iff_suffix quoted_key_at_iff by blast

text \<open>
  C9 (key style), as the code has it. After a successful load, by either decoder,
  \<open>quotedKeys\<close> is true exactly when the literal contains a double quote, one or more word
  characters (letters, digits, underscore), a double quote, any white space and a colon.
\<close>

theorem quotedKeys_inference:
  assumes "parseDataFile L source s = (True, s')"
  shows "\<exists>body arraySlice name.
           babel_parse L source = Inr body
         \<and> scan_statements source body ('''', ''data'') = (arraySlice, name)
         \<and> arraySlice \<noteq> []
         \<and> (quotedKeys s' \<longleftrightarrow>
              (\<exists>pre k ws post.
                  arraySlice = pre @ [dquote] @ k @ [dquote] @ ws @ '':'' @ post \<and> k \<noteq> []
                \<and> (\<forall>c\<in>set k. is_word_char c) \<and> (\<forall>c\<in>set ws. is_space c)))"
proof -
  from assms obtain body where body: "babel_parse L source = Inr body"
    by (cases "babel_parse L source")
       (auto simp: parseDataFile_def parseDataFile_try_parser_error)
  obtain arraySlice name where
    scan: "scan_statements source body ('''', ''data'') = (arraySlice, name)"
    by (cases "scan_statements source body ('''', ''data'')")
  have ne: "arraySlice \<noteq> []"
  proof
    assume "arraySlice = []"
    with scan have "fst (scan_statements source body ('''', ''data'')) = []" by simp
    from parseDataFile_try_not_found[OF body this] assms show False
      by (simp add: parseDataFile_def)
  qed
  from assms parseDataFile_try_found[OF body scan ne, of s]
  have "quotedKeys s' = quotedKeys_test arraySlice"
    by (auto simp: parseDataFile_def split: sum.splits)
  with body scan ne show ?thesis
    unfolding quotedKeys_test_iff by blast
qed

theorem quotedKeys_inference_witness:
  "\<exists>pre k ws post.
      ''[{'' @ [dquote] @ ''a'' @ [dquote] @ '' : 1}]'' =
        pre @ [dquote] @ k @ [dquote] @ ws @ '':'' @ post \<and> k \<noteq> []
    \<and> (\<forall>c\<in>set k. is_word_char c) \<and> (\<forall>c\<in>set ws. is_space c)"
proof -
  let ?s' = "initial\<lparr>originalImports := '''', exportName := ''data'',
     data := [JObj [(''a'', JNum (1::nat))]], quotedKeys := True, error := ''''\<rparr>"
  have t: "parseDataFile sample_libs src_spaced initial = (True, ?s')"
    by (simp add: load_defs sample_defs regex_defs)
  have b: "babel_parse sample_libs src_spaced = Inr [export_const ''data'' 20 31]"
    by (simp add: sample_defs)
  have sc: "scan_statements src_spaced [export_const ''data'' 20 31] ('''', ''data'') =
     (''[{'' @ [dquote] @ ''a'' @ [dquote] @ '' : 1}]'', ''data'')"
    by (simp add: export_const_def src_spaced_def slice_def)
  from quotedKeys_inference[OF t] b sc show ?thesis
    by auto
qed

text \<open>
  The claim as stated fails in both directions. The literal \<^verbatim>\<open>[{"my-key": 1}]\<close> has a
  double-quoted key immediately followed by a colon, is accepted, and \<open>quotedKeys\<close> is false:
  the hyphen is not a word character. The literal \<^verbatim>\<open>[{"a" : 1}]\<close> has no double-quoted
  key immediately followed by a colon, and \<open>quotedKeys\<close> is true: white space may stand
  before the colon.
\<close>

theorem quotedKeys_counterexample:
  "parseDataFile sample_libs src_quoted initial =
     (True, initial\<lparr>originalImports := '''', exportName := ''data'',
        data := [JObj [(''my-key'', JNum 1)]], quotedKeys := False, error := ''''\<rparr>)
   \<and> slice src_quoted 20 35 = ''[{'' @ [dquote] @ ''my-key'' @ [dquote] @ '': 1}]''
   \<and> dquoted_key_colon_occurs (slice src_quoted 20 35)
   \<and> parseDataFile sample_libs src_spaced initial =
     (True, initial\<lparr>originalImports := '''', exportName := ''data'',
        data := [JObj [(''a'', JNum 1)]], quotedKeys := True, error := ''''\<rparr>)
   \<and> slice src_spaced 20 31 = ''[{'' @ [dquote] @ ''a'' @ [dquote] @ '' : 1}]''
   \<and> \<not> dquoted_key_colon_occurs (slice src_spaced 20 31)"
  by (simp add: load_defs sample_defs regex_defs)

section \<open>A failed load\<close>

text \<open>
  C3 (failed load), as the code has it. A failing \<^verbatim>\<open>parseDataFile\<close> leaves \<open>data\<close> and
  \<open>quotedKeys\<close> as they were and changes no state cell other than the import header, the
  export name and the error message. It replaces the import header by the import lines of
  the new module in every case, sets the error message, and replaces the export name
  whenever the scan has found an exported array, that is when the failure comes from the
  decoders; the export name is kept when the parser throws or no export is found.
\<close>

theorem failed_load_state:
  assumes "parseDataFile L source s = (False, s')"
  shows "data s' = data s \<and> quotedKeys s' = quotedKeys s
       \<and> s' = s\<lparr>originalImports := originalImports s', exportName := exportName s',
                   error := error s'\<rparr>
       \<and> originalImports s' = array_join ''\<newline>'' (match_imports source)
       \<and> (\<exists>err. fst (parseDataFile_try L source s) = Some err
                \<and> error s' = ''Failed to parse file: '' @ message err)
       \<and> (\<forall>body. babel_parse L source = Inr body
                  \<and> fst (scan_statements source body ('''', ''data'')) \<noteq> []
              \<longrightarrow> exportName s' = snd (scan_statements source body ('''', ''data'')))
       \<and> ((\<forall>body. babel_parse L source = Inr body
                  \<longrightarrow> fst (scan_statements source body ('''', ''data'')) = [])
              \<longrightarrow> exportName s' = exportName s)"
proof (cases "babel_parse L source")
  case (Inl m)
  with assms show ?thesis
    by (auto simp: parseDataFile_def parseDataFile_try_parser_error)
next
  case (Inr body)
  obtain arraySlice name where
    scan: "scan_statements source body ('''', ''data'') = (arraySlice, name)"
    by (cases "scan_statements source body ('''', ''data'')")
  show ?thesis
  proof (cases "arraySlice = []")
    case True
    with scan have "fst (scan_statements source body ('''', ''data'')) = []" by simp
    from parseDataFile_try_not_found[OF Inr this, of s] assms Inr scan True show ?thesis
      by (auto simp: parseDataFile_def)
  next
    case False
    from parseDataFile_try_found[OF Inr scan False, of s] assms Inr scan False show ?thesis
      by (auto simp: parseDataFile_def split: sum.splits)
  qed
qed

theorem failed_load_state_witness:
  "data (snd (parseDataFile sample_libs src_throwing loaded_items)) = items_doc
   \<and> quotedKeys (snd (parseDataFile sample_libs src_throwing loaded_items)) = False
   \<and> originalImports (snd (parseDataFile sample_libs src_throwing loaded_items)) =
       ''import x from './x';''
   \<and> exportName (snd (parseDataFile sample_libs src_throwing loaded_items)) = ''y''"
proof -
  let ?s' = "loaded_items\<lparr>originalImports := ''import x from './x';'', exportName := ''y'',
       error := ''Failed to parse file: f is not defined''\<rparr>"
  have t: "parseDataFile sample_libs src_throwing loaded_items = (False, ?s')"
    by (simp add: load_defs sample_defs)
  have m: "match_imports src_throwing = [''import x from './x';'']"
    by (simp add: match_imports_def src_throwing_def import_match_def is_space_def
          is_line_terminator_def)
  have b: "babel_parse sample_libs src_throwing =
             Inr [OtherNode ''ImportDeclaration'' [], export_const ''y'' 38 43]"
    by (simp add: sample_defs)
  have sc: "scan_statements src_throwing
              [OtherNode ''ImportDeclaration'' [], export_const ''y'' 38 43] ('''', ''data'') =
            (''[f()]'', ''y'')"
    by (simp add: export_const_def src_throwing_def slice_def)
  have r: "snd (parseDataFile sample_libs src_throwing loaded_items) = ?s'"
    by (simp only: t snd_conv)
  from failed_load_state[OF t] have f:
    "data ?s' = data loaded_items" "quotedKeys ?s' = quotedKeys loaded_items"
    "originalImports ?s' = array_join ''\<newline>'' (match_imports src_throwing)"
    "\<forall>body. babel_parse sample_libs src_throwing = Inr body
                  \<and> fst (scan_statements src_throwing body ('''', ''data'')) \<noteq> []
              \<longrightarrow> exportName ?s' = snd (scan_statements src_throwing body ('''', ''data''))"
    by blast+
  from f(4) b sc have x: "exportName ?s' = ''y''" by simp
  from f(1,2,3) x show ?thesis
    unfolding r by (simp add: m loaded_items_def initial_def)
qed

text \<open>
  The claim as stated fails. On a state loaded from another file, a module without an
  exported array fails with \<open>NoExportedArray\<close> and has replaced the import header; a module
  whose literal the evaluator rejects fails and has replaced the import header and the
  export name.
\<close>

theorem failed_load_counterexample:
  "parseDataFile sample_libs src_no_export loaded_items =
     (False, loaded_items\<lparr>originalImports := ''import x from './x';'',
        error := ''Failed to parse file: No exported array found.''\<rparr>)
   \<and> originalImports loaded_items = ''''
   \<and> parseDataFile sample_libs src_throwing loaded_items =
     (False, loaded_items\<lparr>originalImports := ''import x from './x';'', exportName := ''y'',
        error := ''Failed to parse file: f is not defined''\<rparr>)
   \<and> exportName loaded_items = ''items''"
  by (simp add: load_defs sample_defs loaded_items_def initial_def)

section \<open>The two decoders\<close>



section \<open>The fallback evaluator\<close>

text \<open>
  C2 (fallback), as the code has it. When \<^verbatim>\<open>JSON5.parse\<close> yields no array, the text of
  the literal goes unchanged and unchecked into a function body that the host compiles and
  runs, and the load is what the host makes of it: its array is accepted as the document,
  its exception becomes the error message, any other value is \<open>NotAnArray\<close>.
\<close>

theorem fallback_is_host_evaluation:
  assumes "babel_parse L source = Inr body"
    and "scan_statements source body ('''', ''data'') = (arraySlice, name)"
    and "arraySlice \<noteq> []"
    and "\<forall>xs. JSON5_parse L (''('' @ arraySlice @ '')'') \<noteq> Inr (JArr xs)"
  shows "parseDataFile L source s =
     (case new_Function L ([dquote] @ ''use strict'' @ [dquote] @ ''; return ('' @ arraySlice @ '');'') of
        Inl m \<Rightarrow>
          (False, s\<lparr>originalImports := array_join ''\<newline>'' (match_imports source),
                    exportName := name, error := ''Failed to parse file: '' @ m\<rparr>)
      | Inr (JArr evaluated) \<Rightarrow>
          (True, s\<lparr>originalImports := array_join ''\<newline>'' (match_imports source),
                   exportName := name, data := evaluated,
                   quotedKeys := quotedKeys_test arraySlice, error := ''''\<rparr>)
      | Inr other \<Rightarrow>
          (False, s\<lparr>originalImports := array_join ''\<newline>'' (match_imports source),
                    exportName := name,
                    error := ''Failed to parse file: Export is not an array''\<rparr>))"
proof -
  from assms(4) obtain e where "tier1 L arraySlice = Inl e"
    using tier1_array[of L arraySlice] by (cases "tier1 L arraySlice") auto
  with parseDataFile_try_found[OF assms(1-3), of s] show ?thesis
    by (auto simp: parseDataFile_def tier2_def safeEval_def split: sum.splits jsval.splits)
qed

theorem fallback_is_host_evaluation_witness:
  "parseDataFile sample_libs src_items initial =
     (True, initial\<lparr>originalImports := '''', exportName := ''items'', data := items_doc,
        quotedKeys := False, error := ''''\<rparr>)"
proof -
  have b: "babel_parse sample_libs src_items = Inr [export_const ''items'' 21 71]"
    by (simp add: sample_defs)
  have sc: "scan_statements src_items [export_const ''items'' 21 71] ('''', ''data'') =
            (''[{name:'A', url:'a.png'}, {name:'B', url:'b.png'}]'', ''items'')"
    by (simp add: export_const_def src_items_def slice_def)
  have ne: "''[{name:'A', url:'a.png'}, {name:'B', url:'b.png'}]'' \<noteq> ''''" by simp
  have j: "\<forall>xs. JSON5_parse sample_libs
      (''('' @ ''[{name:'A', url:'a.png'}, {name:'B', url:'b.png'}]'' @ '')'') \<noteq> Inr (JArr xs)"
    by (simp add: sample_libs_def)
  have h: "new_Function sample_libs ([dquote] @ ''use strict'' @ [dquote] @ ''; return ('' @
       ''[{name:'A', url:'a.png'}, {name:'B', url:'b.png'}]'' @ '');'') = Inr (JArr items_doc)"
    by (simp add: sample_libs_def sample_host_def strict_return_def)
  have m: "match_imports src_items = []"
    by (simp add: match_imports_def src_items_def import_match_def)
  have q: "\<not> quotedKeys_test ''[{name:'A', url:'a.png'}, {name:'B', url:'b.png'}]''"
    by (simp add: regex_defs)
  from fallback_is_host_evaluation[OF b sc ne j, of initial] show ?thesis
    by (simp only: h m q sum.case jsval.case array_join.simps)
qed

text \<open>
  The claim as stated fails: the literal \<^verbatim>\<open>[alert(1)]\<close> is a call, not a literal
  expression. The load does not fail closed; the host runs the call and the document is the
  array of its result, \<^verbatim>\<open>[undefined]\<close>.
\<close>

theorem host_call_counterexample:
  "slice src_call 20 30 = ''[alert(1)]''
   \<and> parseDataFile sample_libs src_call initial =
     (True, initial\<lparr>originalImports := '''', exportName := ''data'', data := [JUndefined],
        quotedKeys := False, error := ''''\<rparr>)"
  by (simp add: load_defs sample_defs regex_defs)

end
